theory Spec2Isabelle
  imports Complex_Main
begin

section \<open>Python values, errors and arithmetic\<close>

text \<open>
  Python floats are idealised as real numbers (no NaN, no infinities, no rounding of
  intermediate results). An exception is a value: every function of the source that can
  raise returns \<open>py_error + 'a\<close>, with \<open>Inl\<close> for the raised exception.
\<close>

datatype py_error = ZeroDivisionError | ValueError | KeyError | TypeError | NotTrained | EstimatorError

definition bind_error :: "py_error + 'a \<Rightarrow> ('a \<Rightarrow> py_error + 'b) \<Rightarrow> py_error + 'b" where
  "bind_error m f = (case m of Inl e \<Rightarrow> Inl e | Inr v \<Rightarrow> f v)"

text \<open>
  A feature value is a boolean, an integer or a float, as the data model of the feature
  dictionaries has it. \<open>truthy\<close> is Python's truth test, \<open>num\<close> the numeric value
  Python's arithmetic and comparisons use (\<open>True\<close> is 1).
\<close>

datatype pyval = PBool bool | PInt int | PFloat real

fun truthy :: "pyval \<Rightarrow> bool" where
  "truthy (PBool b) = b"
| "truthy (PInt n) = (n \<noteq> 0)"
| "truthy (PFloat x) = (x \<noteq> 0)"

fun num :: "pyval \<Rightarrow> real" where
  "num (PBool b) = (if b then 1 else 0)"
| "num (PInt n) = of_int n"
| "num (PFloat x) = x"

type_synonym features = "string \<rightharpoonup> pyval"

text \<open>\<open>d.get(k, default)\<close> of a dictionary.\<close>

definition get_default :: "features \<Rightarrow> string \<Rightarrow> pyval \<Rightarrow> pyval" where
  "get_default d k dflt = (case d k of None \<Rightarrow> dflt | Some v \<Rightarrow> v)"

definition py_div :: "real \<Rightarrow> real \<Rightarrow> py_error + real" where
  "py_div a b = (if b = 0 then Inl ZeroDivisionError else Inr (a / b))"

fun py_max :: "real list \<Rightarrow> py_error + real" where
  "py_max [] = Inl ValueError"
| "py_max (x # xs) = Inr (fold max xs x)"

fun py_min :: "real list \<Rightarrow> py_error + real" where
  "py_min [] = Inl ValueError"
| "py_min (x # xs) = Inr (fold min xs x)"

text \<open>
  \<open>round(x)\<close> rounds to the nearest integer, a tie to the even one;
  \<open>round(x, n)\<close> does so at the n-th decimal.
\<close>

definition py_round :: "real \<Rightarrow> int" where
  "py_round x =
     (let f = \<lfloor>x\<rfloor>; d = x - of_int f
      in if d < 1 / 2 then f else if 1 / 2 < d then f + 1 else if even f then f else f + 1)"

definition round_ndigits :: "real \<Rightarrow> nat \<Rightarrow> real" where
  "round_ndigits x n = of_int (py_round (x * 10 ^ n)) / 10 ^ n"

text \<open>\<open>str(n)\<close> of a non-negative integer.\<close>

definition digit_char :: "nat \<Rightarrow> char" where
  "digit_char d = ''0123456789'' ! d"

function str_nat :: "nat \<Rightarrow> string" where
  "str_nat n = (if n < 10 then [digit_char n] else str_nat (n div 10) @ [digit_char (n mod 10)])"
  by pat_completeness auto
termination
  by (relation "measure id") auto

declare str_nat.simps [simp del]

section \<open>models/document\_models.py\<close>

datatype DocumentType = PAY_SLIP | TAX_DECLARATION | BANK_STATEMENT | INCOME_CONSISTENCY | LOAN_PAYMENTS

datatype DocumentStatus = VALID | INVALID | SUSPICIOUS | INCOMPLETE

fun status_value :: "DocumentStatus \<Rightarrow> string" where
  "status_value VALID = ''valid''"
| "status_value INVALID = ''invalid''"
| "status_value SUSPICIOUS = ''suspicious''"
| "status_value INCOMPLETE = ''incomplete''"

text \<open>
  \<open>extracted_data\<close> is an untyped \<open>Dict\<close> in the source; the record is polymorphic in it.
  The credit scorer reads it as a feature dictionary, the parser stores the parsed fields.
\<close>

record 'd DocumentAnalysisResult =
  document_type :: DocumentType
  status :: DocumentStatus
  confidence :: real
  extracted_data :: 'd
  validation_issues :: "string list"
  score :: real
  risk_flags :: "string list"
  recommendations :: "string list"

record CreditworthinessScore =
  overall_score :: real
  income_score :: real
  consistency_score :: real
  debt_ratio_score :: real
  document_quality_score :: real
  rating :: string
  decision :: string
  cw_confidence :: real
  risk_level :: string
  monthly_income :: real
  debt_to_income_ratio :: real
  strengths :: "string list"
  weaknesses :: "string list"
  required_documents :: "string list"
  missing_documents :: "string list"

section \<open>services/document\_scorer.py: DocumentCreditScorer\<close>

type_synonym scored_document = "features DocumentAnalysisResult"

definition min_required_pay_slips :: nat where
  "min_required_pay_slips = 2"

definition min_required_tax_declaration :: nat where
  "min_required_tax_declaration = 1"

text \<open>The dictionary \<open>income_data\<close> of \<open>calculate_income_score\<close>.\<close>

record income_data =
  id_monthly_income :: real
  id_annual_income :: real
  id_income_sources :: real

text \<open>The net salaries collected from the pay slips: those present and truthy.\<close>

definition net_salaries :: "scored_document list \<Rightarrow> real list" where
  "net_salaries pay_slips =
     List.map_filter
       (\<lambda>ps. case extracted_data ps ''net_salary'' of
                None \<Rightarrow> None
              | Some net_sal \<Rightarrow> if truthy net_sal then Some (num net_sal) else None)
       pay_slips"

definition income_level_points :: "real \<Rightarrow> real" where
  "income_level_points avg_salary =
     (if avg_salary \<ge> 15000 then 40
      else if avg_salary \<ge> 10000 then 30
      else if avg_salary \<ge> 7000 then 20
      else if avg_salary \<ge> 4000 then 10
      else 5)"

definition consistency_points :: "real \<Rightarrow> real" where
  "consistency_points consistency_ratio =
     (if consistency_ratio < 0.05 then 20
      else if consistency_ratio < 0.15 then 15
      else if consistency_ratio < 0.25 then 10
      else 5)"

definition consistency_bonus :: "real list \<Rightarrow> real \<Rightarrow> py_error + real" where
  "consistency_bonus salaries avg_salary =
     (if length salaries \<ge> 2 then
        bind_error (py_max salaries) (\<lambda>mx.
        bind_error (py_min salaries) (\<lambda>mn.
        bind_error (if avg_salary > 0 then py_div (mx - mn) avg_salary else Inr 1) (\<lambda>consistency_ratio.
        Inr (consistency_points consistency_ratio))))
      else Inr 0)"

text \<open>The loop over the tax declarations: each truthy annual income adds 10 points.\<close>

definition tax_step :: "scored_document \<Rightarrow> real \<times> real \<Rightarrow> real \<times> real" where
  "tax_step td acc =
     (case extracted_data td ''gross_annual_income'' of
        None \<Rightarrow> acc
      | Some annual \<Rightarrow> if truthy annual then (fst acc + 10, num annual) else acc)"

definition calculate_income_score :: "scored_document list \<Rightarrow> py_error + (real \<times> income_data)" where
  "calculate_income_score documents =
     (let pay_slips = filter (\<lambda>d. document_type d = PAY_SLIP) documents;
          tax_declarations = filter (\<lambda>d. document_type d = TAX_DECLARATION) documents;
          salaries = net_salaries pay_slips
      in bind_error
           (if pay_slips \<noteq> [] \<and> salaries \<noteq> [] then
              bind_error (py_div (sum_list salaries) (real (length salaries))) (\<lambda>avg_salary.
              bind_error (consistency_bonus salaries avg_salary) (\<lambda>bonus.
              Inr (income_level_points avg_salary + bonus, avg_salary)))
            else Inr (0, 0))
           (\<lambda>(s, monthly).
              let (income_score, annual) = fold tax_step tax_declarations (s, 0)
              in Inr (min income_score 100,
                      \<lparr>id_monthly_income = monthly, id_annual_income = annual,
                       id_income_sources = 0\<rparr>)))"

definition calculate_consistency_score :: "scored_document list \<Rightarrow> py_error + real" where
  "calculate_consistency_score documents =
     (if documents = [] then Inr 0
      else
        let n = real (length documents);
            valid_docs = filter (\<lambda>d. status_value (status d) = ''valid'') documents
        in bind_error (py_div (real (length valid_docs)) n) (\<lambda>valid_fraction.
           bind_error (py_div (sum_list (map score documents)) n) (\<lambda>avg_doc_score.
           bind_error (py_div (sum_list (map confidence documents)) n) (\<lambda>avg_confidence.
           Inr (min (valid_fraction * 40 + (avg_doc_score / 100) * 30 + avg_confidence * 30) 100)))))"

definition debt_ratio_points :: "real \<Rightarrow> real" where
  "debt_ratio_points debt_ratio =
     (if debt_ratio \<le> 25 then 100
      else if debt_ratio \<le> 33 then 80
      else if debt_ratio \<le> 40 then 60
      else if debt_ratio \<le> 50 then 40
      else 20)"

text \<open>Returns the pair (score, debt ratio), in the order of the source.\<close>

definition calculate_debt_ratio_score :: "real \<Rightarrow> real \<Rightarrow> real \<Rightarrow> py_error + (real \<times> real)" where
  "calculate_debt_ratio_score monthly_income_arg requested_credit monthly_payment =
     (if monthly_income_arg \<le> 0 then Inr (0, 0)
      else
        bind_error
          (if monthly_income_arg > 0
           then bind_error (py_div monthly_payment monthly_income_arg) (\<lambda>q. Inr (q * 100))
           else Inr 100)
          (\<lambda>debt_ratio. Inr (debt_ratio_points debt_ratio, debt_ratio)))"

definition document_quality :: "scored_document list \<Rightarrow> py_error + real" where
  "document_quality documents =
     (if documents \<noteq> [] then py_div (sum_list (map score documents)) (real (length documents))
      else Inr 0)"

text \<open>The weighted sum assigned to the local variable \<open>overall_score\<close>.\<close>

definition weighted_overall_score :: "real \<Rightarrow> real \<Rightarrow> real \<Rightarrow> real \<Rightarrow> real" where
  "weighted_overall_score income consistency debt doc_quality =
     income * 0.35 + consistency * 0.25 + debt * 0.30 + doc_quality * 0.10"

text \<open>Rating, decision and risk level from the overall score.\<close>

definition determine_rating :: "real \<Rightarrow> string \<times> string \<times> string" where
  "determine_rating overall =
     (if overall \<ge> 80 then (''Excellent'', ''Approved'', ''Low'')
      else if overall \<ge> 65 then (''Good'', ''Approved'', ''Low'')
      else if overall \<ge> 50 then (''Fair'', ''Review'', ''Medium'')
      else if overall \<ge> 35 then (''Poor'', ''Review'', ''High'')
      else (''Rejected'', ''Rejected'', ''High''))"

definition find_strengths :: "real \<Rightarrow> real \<Rightarrow> real \<Rightarrow> real \<Rightarrow> string list" where
  "find_strengths income debt consistency doc_quality =
     (if income \<ge> 70 then [''Strong income level''] else [])
     @ (if debt \<ge> 80 then [''Low debt-to-income ratio''] else [])
     @ (if consistency \<ge> 70 then [''Consistent documentation''] else [])
     @ (if doc_quality \<ge> 75 then [''High quality documents''] else [])"

definition find_weaknesses :: "real \<Rightarrow> real \<Rightarrow> real \<Rightarrow> real \<Rightarrow> string list" where
  "find_weaknesses income debt consistency doc_quality =
     (if \<not> income \<ge> 70 \<and> income < 40 then [''Low income level''] else [])
     @ (if \<not> debt \<ge> 80 \<and> debt < 50 then [''High debt-to-income ratio''] else [])
     @ (if \<not> consistency \<ge> 70 \<and> consistency < 50
        then [''Inconsistent or incomplete documentation''] else [])
     @ (if \<not> doc_quality \<ge> 75 \<and> doc_quality < 50
        then [''Poor quality or suspicious documents''] else [])"

definition find_missing_documents :: "scored_document list \<Rightarrow> string list" where
  "find_missing_documents documents =
     (let pay_slip_count = length (filter (\<lambda>d. document_type d = PAY_SLIP) documents);
          tax_decl_count = length (filter (\<lambda>d. document_type d = TAX_DECLARATION) documents)
      in (if pay_slip_count < min_required_pay_slips
          then [''Pay slips ('' @ str_nat pay_slip_count @ ''/'' @ str_nat min_required_pay_slips @ '')'']
          else [])
         @ (if tax_decl_count < min_required_tax_declaration then [''Tax declaration''] else []))"

definition evaluate_creditworthiness ::
  "scored_document list \<Rightarrow> real \<Rightarrow> real \<Rightarrow> py_error + CreditworthinessScore" where
  "evaluate_creditworthiness documents requested_credit monthly_payment =
     bind_error (calculate_income_score documents) (\<lambda>(income, idata).
     bind_error (calculate_consistency_score documents) (\<lambda>consistency.
     bind_error (calculate_debt_ratio_score (id_monthly_income idata) requested_credit monthly_payment)
       (\<lambda>(debt_score, debt_ratio).
     bind_error (document_quality documents) (\<lambda>doc_quality.
       let overall = weighted_overall_score income consistency debt_score doc_quality;
           (rating_v, decision_v, risk_v) = determine_rating overall;
           conf = min ((consistency + doc_quality) / 200) 1
       in Inr \<lparr>overall_score = round_ndigits overall 2,
               income_score = round_ndigits income 2,
               consistency_score = round_ndigits consistency 2,
               debt_ratio_score = round_ndigits debt_score 2,
               document_quality_score = round_ndigits doc_quality 2,
               rating = rating_v,
               decision = decision_v,
               cw_confidence = round_ndigits conf 3,
               risk_level = risk_v,
               monthly_income = id_monthly_income idata,
               debt_to_income_ratio = round_ndigits debt_ratio 2,
               strengths = find_strengths income debt_score consistency doc_quality,
               weaknesses = find_weaknesses income debt_score consistency doc_quality,
               required_documents =
                 [str_nat min_required_pay_slips @ '' recent pay slips'', ''Tax declaration''],
               missing_documents = find_missing_documents documents\<rparr>))))"

section \<open>services/scoring\_service.py: DocumentScoringService\<close>



text \<open>
  \<open>pd.DataFrame([features])[columns]\<close> with booleans cast to integers: the row of the
  numeric values of the columns, a \<open>KeyError\<close> when a column is missing.
\<close>

fun select_columns :: "features \<Rightarrow> string list \<Rightarrow> py_error + real list" where
  "select_columns f [] = Inr []"
| "select_columns f (c # cs) =
     (case f c of
        None \<Rightarrow> Inl KeyError
      | Some v \<Rightarrow> bind_error (select_columns f cs) (\<lambda>vs. Inr (num v # vs)))"











section \<open>train\_model.py: DocumentAnalysisModel\<close>

text \<open>
  The fitted classifier, regressor, scaler and label encoder are external estimators:
  arbitrary functions that may raise. The dictionary a prediction returns is the record
  \<open>prediction\<close>; its fields carry the prefix \<open>pred\<close>.
\<close>

record DocumentAnalysisModel =
  classifier_predict :: "real list \<Rightarrow> py_error + nat"
  classifier_predict_proba :: "real list \<Rightarrow> py_error + real list"
  regressor_predict :: "real list \<Rightarrow> py_error + real"
  scaler_transform :: "real list \<Rightarrow> py_error + real list"
  label_classes :: "string list"
  feature_columns :: "string list"
  model_trained :: bool

record prediction =
  pred_status :: string
  pred_confidence :: real
  pred_score :: real
  pred_status_probabilities :: "(string \<times> real) list"

definition prepare_features :: "string \<Rightarrow> string list" where
  "prepare_features dt =
     (if dt = ''CIN'' then
        [''is_expired'', ''ocr_confidence'', ''image_quality'', ''has_photo'', ''text_legible'',
         ''correct_format'']
      else if dt = ''PAY_SLIP'' then
        [''gross_salary'', ''net_salary'', ''total_deductions'', ''has_company_stamp'',
         ''amounts_match'', ''has_required_fields'', ''salary_consistency'', ''months_since_issue'']
      else if dt = ''TAX_DECLARATION'' then
        [''gross_income'', ''taxable_income'', ''tax_paid'', ''has_official_stamp'',
         ''calculations_correct'', ''all_fields_filled'', ''income_reasonable'',
         ''years_since_declaration'']
      else if dt = ''BANK_STATEMENT'' then
        [''period_months'', ''opening_balance'', ''closing_balance'', ''average_balance'',
         ''total_credits'', ''total_debits'', ''avg_monthly_income'', ''avg_monthly_expenses'',
         ''savings_rate'', ''low_balance_incidents'', ''has_bank_header'', ''balances_match'',
         ''regular_income'']
      else [])"

text \<open>\<open>xs.index(x)\<close>: the first position of x, a \<open>ValueError\<close> when x is absent.\<close>

fun list_index :: "'a list \<Rightarrow> 'a \<Rightarrow> py_error + nat" where
  "list_index [] x = Inl ValueError"
| "list_index (y # ys) x =
     (if y = x then Inr 0 else bind_error (list_index ys x) (\<lambda>i. Inr (Suc i)))"

definition inverse_transform :: "string list \<Rightarrow> nat \<Rightarrow> py_error + string" where
  "inverse_transform classes k = (if k < length classes then Inr (classes ! k) else Inl ValueError)"

definition predict_document :: "DocumentAnalysisModel \<Rightarrow> features \<Rightarrow> string \<Rightarrow> py_error + prediction" where
  "predict_document m features_dict dt =
     (if \<not> model_trained m then Inl NotTrained
      else
        let feature_cols = prepare_features dt
        in bind_error (select_columns features_dict feature_cols) (\<lambda>vals.
           bind_error (list_index [''CIN'', ''PAY_SLIP'', ''TAX_DECLARATION'', ''BANK_STATEMENT''] dt)
             (\<lambda>doc_type_encoded.
           let X = zip feature_cols vals @ [(''doc_type_encoded'', real doc_type_encoded)];
               row = map (\<lambda>col. case map_of X col of None \<Rightarrow> 0 | Some v \<Rightarrow> v) (feature_columns m)
           in bind_error (scaler_transform m row) (\<lambda>X_scaled.
              bind_error (classifier_predict m X_scaled) (\<lambda>status_encoded.
              bind_error (classifier_predict_proba m X_scaled) (\<lambda>status_proba.
              bind_error (inverse_transform (label_classes m) status_encoded) (\<lambda>status_v.
              bind_error (py_max status_proba) (\<lambda>conf.
              bind_error (regressor_predict m X_scaled) (\<lambda>raw.
                let clipped = max 0 (min 100 raw)
                in Inr \<lparr>pred_status = status_v,
                        pred_confidence = round_ndigits conf 3,
                        pred_score = round_ndigits clipped 2,
                        pred_status_probabilities =
                          zip (label_classes m) (map (\<lambda>p. round_ndigits p 3) status_proba)\<rparr>)))))))))"

section \<open>services/ml\_model\_service.py: MLModelService\<close>

record MLModelService =
  model :: DocumentAnalysisModel
  model_loaded :: bool

definition status_of_score :: "real \<Rightarrow> string" where
  "status_of_score s = (if s \<ge> 70 then ''VALID'' else if s \<ge> 50 then ''SUSPICIOUS'' else ''INVALID'')"

definition fallback_result :: "real \<Rightarrow> prediction" where
  "fallback_result s =
     (let status_v = status_of_score s
      in \<lparr>pred_status = status_v,
          pred_confidence = 0.7,
          pred_score = max 0 (min 100 s),
          pred_status_probabilities = [(status_v, 0.7)]\<rparr>)"

definition fallback_cin_analysis :: "features \<Rightarrow> prediction" where
  "fallback_cin_analysis d =
     (let s0 = 70;
          s1 = (if truthy (get_default d ''is_expired'' (PBool False)) then s0 - 30 else s0);
          s2 = (if num (get_default d ''ocr_confidence'' (PFloat 1)) < 0.7 then s1 - 20 else s1);
          s3 = (if \<not> truthy (get_default d ''has_photo'' (PBool True)) then s2 - 25 else s2)
      in fallback_result s3)"

definition fallback_payslip_analysis :: "features \<Rightarrow> prediction" where
  "fallback_payslip_analysis d =
     (let net_salary_v = num (get_default d ''net_salary'' (PInt 0));
          s0 = min 100 (net_salary_v / 100);
          s1 = (if \<not> truthy (get_default d ''has_company_stamp'' (PBool True)) then s0 - 20 else s0);
          s2 = (if \<not> truthy (get_default d ''amounts_match'' (PBool True)) then s1 - 30 else s1)
      in fallback_result s2)"

definition fallback_tax_analysis :: "features \<Rightarrow> prediction" where
  "fallback_tax_analysis d =
     (let taxable_income_v = num (get_default d ''taxable_income'' (PInt 0));
          s0 = min 100 (taxable_income_v / 1000);
          s1 = (if \<not> truthy (get_default d ''has_official_stamp'' (PBool True)) then s0 - 25 else s0);
          s2 = (if \<not> truthy (get_default d ''calculations_correct'' (PBool True)) then s1 - 35 else s1)
      in fallback_result s2)"

definition fallback_bank_analysis :: "features \<Rightarrow> prediction" where
  "fallback_bank_analysis d =
     (let avg_balance = num (get_default d ''average_balance'' (PInt 0));
          avg_income = num (get_default d ''avg_monthly_income'' (PInt 0));
          s0 = min 100 (avg_balance / 100) * 0.3 + min 100 (avg_income / 50) * 0.7;
          s1 = (if \<not> truthy (get_default d ''regular_income'' (PBool True)) then s0 - 20 else s0);
          s2 = (if num (get_default d ''low_balance_incidents'' (PInt 0)) > 2 then s1 - 25 else s1)
      in fallback_result s2)"

text \<open>
  The four \<open>predict_*_document\<close> methods: the fallback when no model is loaded or the
  prediction raises, otherwise the prediction on the features filled with defaults.
\<close>

definition predict_with ::
  "MLModelService \<Rightarrow> (string \<times> pyval) list \<Rightarrow> string \<Rightarrow> (features \<Rightarrow> prediction) \<Rightarrow> features \<Rightarrow> prediction" where
  "predict_with svc defaults dt fallback extracted =
     (if \<not> model_loaded svc then fallback extracted
      else
        let feats = map_of (map (\<lambda>(k, dflt). (k, get_default extracted k dflt)) defaults)
        in case predict_document (model svc) feats dt of
             Inl e \<Rightarrow> fallback extracted
           | Inr p \<Rightarrow> p)"

definition predict_cin_document :: "MLModelService \<Rightarrow> features \<Rightarrow> prediction" where
  "predict_cin_document svc extracted =
     predict_with svc
       [(''is_expired'', PBool False), (''ocr_confidence'', PFloat 0.8),
        (''image_quality'', PFloat 0.8), (''has_photo'', PBool True),
        (''text_legible'', PBool True), (''correct_format'', PBool True)]
       ''CIN'' fallback_cin_analysis extracted"

definition predict_payslip_document :: "MLModelService \<Rightarrow> features \<Rightarrow> prediction" where
  "predict_payslip_document svc extracted =
     predict_with svc
       [(''gross_salary'', PInt 0), (''net_salary'', PInt 0), (''total_deductions'', PInt 0),
        (''has_company_stamp'', PBool True), (''amounts_match'', PBool True),
        (''has_required_fields'', PBool True), (''salary_consistency'', PFloat 0.8),
        (''months_since_issue'', PInt 0)]
       ''PAY_SLIP'' fallback_payslip_analysis extracted"

definition predict_tax_document :: "MLModelService \<Rightarrow> features \<Rightarrow> prediction" where
  "predict_tax_document svc extracted =
     predict_with svc
       [(''gross_income'', PInt 0), (''taxable_income'', PInt 0), (''tax_paid'', PInt 0),
        (''has_official_stamp'', PBool True), (''calculations_correct'', PBool True),
        (''all_fields_filled'', PBool True), (''income_reasonable'', PBool True),
        (''years_since_declaration'', PInt 0)]
       ''TAX_DECLARATION'' fallback_tax_analysis extracted"

definition predict_bank_statement_document :: "MLModelService \<Rightarrow> features \<Rightarrow> prediction" where
  "predict_bank_statement_document svc extracted =
     predict_with svc
       [(''period_months'', PInt 3), (''opening_balance'', PInt 0), (''closing_balance'', PInt 0),
        (''average_balance'', PInt 0), (''total_credits'', PInt 0), (''total_debits'', PInt 0),
        (''avg_monthly_income'', PInt 0), (''avg_monthly_expenses'', PInt 0),
        (''savings_rate'', PInt 0), (''low_balance_incidents'', PInt 0),
        (''has_bank_header'', PBool True), (''balances_match'', PBool True),
        (''regular_income'', PBool True)]
       ''BANK_STATEMENT'' fallback_bank_analysis extracted"

section \<open>generate\_dataset.py: the labelling rules\<close>

text \<open>
  The generators draw the features at random and then label the row by a fixed rule.
  The rule is modelled as a function of the drawn features: the blocks commented
  \<open>Status\<close> and \<open>Score\<close> of \<open>generate_cin_data\<close> and \<open>generate_payslip_data\<close>. The row
  stores the score rounded to two decimals.
\<close>

definition generate_cin_data_status :: "bool \<Rightarrow> real \<Rightarrow> real \<Rightarrow> bool \<Rightarrow> bool \<Rightarrow> bool \<Rightarrow> string" where
  "generate_cin_data_status is_expired ocr_confidence image_quality has_photo text_legible correct_format =
     (if is_expired \<or> ocr_confidence < 0.5 \<or> \<not> has_photo \<or> \<not> text_legible then ''INVALID''
      else if ocr_confidence < 0.65 \<or> image_quality < 0.6 \<or> \<not> correct_format then ''SUSPICIOUS''
      else ''VALID'')"

definition generate_cin_data_score :: "bool \<Rightarrow> real \<Rightarrow> real \<Rightarrow> bool \<Rightarrow> bool \<Rightarrow> real" where
  "generate_cin_data_score is_expired ocr_confidence image_quality has_photo text_legible =
     round_ndigits
       (ocr_confidence * 40 + image_quality * 30
        + (if \<not> is_expired then 1 else 0) * 20
        + (if has_photo then 1 else 0) * 5
        + (if text_legible then 1 else 0) * 5) 2"


definition generate_payslip_data_score :: "real \<Rightarrow> bool \<Rightarrow> bool \<Rightarrow> bool \<Rightarrow> real \<Rightarrow> real" where
  "generate_payslip_data_score net_salary_v has_company_stamp amounts_match has_required_fields salary_consistency =
     (let income = min 100 (net_salary_v / 300);
          quality = of_bool has_company_stamp * 20 + of_bool amounts_match * 30
                    + of_bool has_required_fields * 30 + salary_consistency * 20
      in round_ndigits (income * 0.6 + quality * 0.4) 2)"

section \<open>services/document\_parser.py: DocumentParser\<close>

record PaySlipData =
  gross_salary :: "real option"
  net_salary :: "real option"
  employer_name :: "string option"
  employee_name :: "string option"
  month :: "string option"
  year :: "int option"
  cnss_deduction :: "real option"
  ir_deduction :: "real option"
  total_deductions :: "real option"

record TaxDeclarationData =
  gross_annual_income :: "real option"
  taxable_income :: "real option"
  tax_paid :: "real option"
  fiscal_year :: "int option"
  taxpayer_name :: "string option"
  fiscal_id :: "string option"

record BankStatementData =
  account_holder :: "string option"
  account_number :: "string option"
  opening_balance :: "real option"
  closing_balance :: "real option"
  total_credits :: "real option"
  total_debits :: "real option"
  average_balance :: "real option"
  num_transactions :: "int option"
  period_start :: "string option"
  period_end :: "string option"

text \<open>The dictionary made of the parsed fields (\<open>.dict()\<close>), empty for the other kinds.\<close>

datatype extracted =
  NoData | PaySlipDict PaySlipData | TaxDict TaxDeclarationData | BankDict BankStatementData

text \<open>
  Text extraction and the regular-expression parsers are external: the parser object is
  a record of arbitrary functions. \<open>extract_text_from_pdf\<close> catches every exception and
  returns the empty text; a parser may raise (\<open>float\<close> of a matched group).
\<close>

record DocumentParser =
  extract_text_from_pdf :: "string \<Rightarrow> string"
  parse_pay_slip :: "string \<Rightarrow> py_error + PaySlipData"
  parse_tax_declaration :: "string \<Rightarrow> py_error + TaxDeclarationData"
  parse_bank_statement :: "string \<Rightarrow> py_error + BankStatementData"

text \<open>Python's truth test on an optional field: \<open>None\<close>, 0 and the empty string are false.\<close>

definition truthy_num :: "'a::zero option \<Rightarrow> bool" where
  "truthy_num x = (case x of None \<Rightarrow> False | Some v \<Rightarrow> v \<noteq> 0)"

definition truthy_str :: "string option \<Rightarrow> bool" where
  "truthy_str x = (case x of None \<Rightarrow> False | Some s \<Rightarrow> s \<noteq> [])"

text \<open>
  The validation state is the pair of \<open>validation_issues\<close> and \<open>score\<close>; \<open>issue\<close> appends
  a message and subtracts a penalty.
\<close>

definition issue :: "string \<Rightarrow> int \<Rightarrow> string list \<times> int \<Rightarrow> string list \<times> int" where
  "issue msg penalty st = (fst st @ [msg], snd st - penalty)"

definition validate_pay_slip :: "PaySlipData \<Rightarrow> string list \<times> int \<Rightarrow> py_error + (string list \<times> int)" where
  "validate_pay_slip ps st0 =
     (let st1 = (if \<not> truthy_num (net_salary ps) then issue ''Net salary not found'' 20 st0 else st0);
          st2 = (if \<not> truthy_str (employer_name ps) then issue ''Employer name not found'' 10 st1 else st1);
          st3 = (if truthy_num (net_salary ps) \<and> truthy_num (gross_salary ps)
                 then (if the (net_salary ps) > the (gross_salary ps)
                       then issue ''Net salary greater than gross salary - suspicious'' 30 st2
                       else st2)
                 else st2)
      in if truthy_num (net_salary ps) \<and> truthy_num (gross_salary ps) then
           bind_error (py_div (the (gross_salary ps) - the (net_salary ps)) (the (gross_salary ps)))
             (\<lambda>deduction_ratio.
                Inr (if deduction_ratio > 0.40 then issue ''Unusually high deductions'' 10 st3
                     else if deduction_ratio < 0.10 then issue ''Unusually low deductions'' 5 st3
                     else (fst st3, snd st3 + 10)))
         else Inr st3)"

definition validate_tax_declaration :: "TaxDeclarationData \<Rightarrow> string list \<times> int \<Rightarrow> string list \<times> int" where
  "validate_tax_declaration td st0 =
     (let st1 = (if \<not> truthy_num (gross_annual_income td) then issue ''Annual income not found'' 20 st0 else st0);
          st2 = (if \<not> truthy_num (fiscal_year td) then issue ''Fiscal year not found'' 10 st1 else st1)
      in if truthy_num (gross_annual_income td) \<and> truthy_num (taxable_income td)
         then (if the (taxable_income td) > the (gross_annual_income td)
               then issue ''Taxable income exceeds gross income - suspicious'' 30 st2
               else st2)
         else st2)"

definition validate_bank_statement :: "BankStatementData \<Rightarrow> string list \<times> int \<Rightarrow> string list \<times> int" where
  "validate_bank_statement bs st0 =
     (let st1 = (if \<not> truthy_num (closing_balance bs) then issue ''Balance not found'' 20 st0 else st0)
      in if \<not> truthy_str (account_holder bs) then issue ''Account holder not found'' 10 st1 else st1)"

text \<open>The part of \<open>analyze_document\<close> from \<open>Determine status\<close> to the result.\<close>

definition finish_analysis :: "DocumentType \<Rightarrow> extracted \<Rightarrow> string list \<times> int \<Rightarrow> extracted DocumentAnalysisResult" where
  "finish_analysis dt data st =
     (let issues = fst st; score0 = snd st;
          (status_v, score1) =
            (if score0 < 30 then (INVALID, score0)
             else if length issues > 3 then (SUSPICIOUS, score0)
             else if length issues > 0 then (INCOMPLETE, score0)
             else (VALID, score0 + 20));
          risk = (if issues \<noteq> [] then issues else []);
          recs = (if issues \<noteq> [] then [''Verify document authenticity''] else [])
                 @ (if score1 < 50 then [''Submit additional supporting documents''] else [])
      in \<lparr>document_type = dt, status = status_v,
          confidence = min (of_int score1 / 100) 1,
          extracted_data = data, validation_issues = issues,
          score = max 0 (min 100 (of_int score1)),
          risk_flags = risk, recommendations = recs\<rparr>)"

definition analyze_document :: "DocumentParser \<Rightarrow> string \<Rightarrow> DocumentType \<Rightarrow> py_error + extracted DocumentAnalysisResult" where
  "analyze_document parser pdf_bytes dt =
     (let text_v = extract_text_from_pdf parser pdf_bytes
      in if text_v = [] \<or> length text_v < 50 then
           Inr \<lparr>document_type = dt, status = INVALID, confidence = 0, extracted_data = NoData,
                validation_issues = [''Failed to extract text from document''], score = 0,
                risk_flags = [''Unreadable document''],
                recommendations = [''Upload a clearer, high-quality document'']\<rparr>
         else if dt = PAY_SLIP then
           bind_error (parse_pay_slip parser text_v) (\<lambda>pay_slip.
           bind_error (validate_pay_slip pay_slip ([], 50)) (\<lambda>st.
           Inr (finish_analysis dt (PaySlipDict pay_slip) st)))
         else if dt = TAX_DECLARATION then
           bind_error (parse_tax_declaration parser text_v) (\<lambda>tax_decl.
           Inr (finish_analysis dt (TaxDict tax_decl) (validate_tax_declaration tax_decl ([], 50))))
         else if dt = BANK_STATEMENT then
           bind_error (parse_bank_statement parser text_v) (\<lambda>bank_stmt.
           Inr (finish_analysis dt (BankDict bank_stmt) (validate_bank_statement bank_stmt ([], 50))))
         else Inr (finish_analysis dt NoData ([], 50)))"

section \<open>services/document\_analyzer.py: DocumentAnalyzer\<close>














section \<open>Concrete inputs\<close>



definition example_model :: DocumentAnalysisModel where
  "example_model =
     \<lparr>classifier_predict = (\<lambda>X. Inr 0),
      classifier_predict_proba = (\<lambda>X. Inr [0.9, 0.1]),
      regressor_predict = (\<lambda>X. Inr (sum_list X / 10)),
      scaler_transform = (\<lambda>X. Inr X),
      label_classes = [''INVALID'', ''VALID''],
      feature_columns = [''net_salary'', ''doc_type_encoded''],
      model_trained = True\<rparr>"



definition example_high_salary_features :: features where
  "example_high_salary_features =
     [''net_salary'' \<mapsto> PFloat 10000, ''has_company_stamp'' \<mapsto> PBool True,
      ''amounts_match'' \<mapsto> PBool False]"

definition example_expired_cin :: features where
  "example_expired_cin =
     [''is_expired'' \<mapsto> PBool True, ''ocr_confidence'' \<mapsto> PFloat 0.92,
      ''image_quality'' \<mapsto> PFloat 0.88, ''has_photo'' \<mapsto> PBool True,
      ''text_legible'' \<mapsto> PBool True, ''correct_format'' \<mapsto> PBool True]"

definition example_unloaded_service :: MLModelService where
  "example_unloaded_service = \<lparr>model = example_model, model_loaded = False\<rparr>"





text \<open>
  A parser whose pay slip has a net salary above the gross salary and no employer, and
  the analysis result for it.
\<close>

definition example_parser :: DocumentParser where
  "example_parser =
     \<lparr>extract_text_from_pdf = (\<lambda>pdf_bytes. replicate 60 CHR ''x''),
      parse_pay_slip = (\<lambda>t. Inr \<lparr>gross_salary = Some 1000, net_salary = Some 2000,
                                   employer_name = None, employee_name = None, month = None,
                                   year = None, cnss_deduction = None, ir_deduction = None,
                                   total_deductions = None\<rparr>),
      parse_tax_declaration = (\<lambda>t. Inl ValueError),
      parse_bank_statement = (\<lambda>t. Inl ValueError)\<rparr>"

definition example_analysis :: "extracted DocumentAnalysisResult" where
  "example_analysis =
     \<lparr>document_type = PAY_SLIP, status = INVALID, confidence = 0.05,
      extracted_data = PaySlipDict \<lparr>gross_salary = Some 1000, net_salary = Some 2000,
                                   employer_name = None, employee_name = None, month = None,
                                   year = None, cnss_deduction = None, ir_deduction = None,
                                   total_deductions = None\<rparr>,
      validation_issues = [''Employer name not found'',
                           ''Net salary greater than gross salary - suspicious'',
                           ''Unusually low deductions''],
      score = 5,
      risk_flags = [''Employer name not found'',
                    ''Net salary greater than gross salary - suspicious'',
                    ''Unusually low deductions''],
      recommendations = [''Verify document authenticity'',
                         ''Submit additional supporting documents'']\<rparr>"



section \<open>Rounding facts\<close>


lemma py_round_zero: "py_round 0 = 0"
  by (simp add: py_round_def)

lemma round_ndigits_zero: "round_ndigits 0 n = 0"
  by (simp add: round_ndigits_def py_round_zero)









section \<open>The components of the credit score\<close>











lemma calculate_consistency_score_total:
  "\<exists>c. calculate_consistency_score documents = Inr c \<and> c \<le> 100"
  by (simp add: calculate_consistency_score_def bind_error_def py_div_def Let_def)




lemma document_quality_total: "\<exists>q. document_quality documents = Inr q"
  by (simp add: document_quality_def py_div_def)





section \<open>Properties of the credit scorer\<close>

text \<open>
  C5. When the monthly income is zero or negative, \<open>calculate_debt_ratio_score\<close> raises
  nothing (in particular no division by zero) and returns the score 0 together with the
  ratio 0, whatever the monthly payment and the requested credit are.
\<close>

theorem debt_ratio_zero_income:
  "monthly_income_arg \<le> 0 \<Longrightarrow>
     calculate_debt_ratio_score monthly_income_arg requested_credit monthly_payment = Inr (0, 0)"
  by (simp add: calculate_debt_ratio_score_def)

theorem debt_ratio_zero_income_witness:
  "(0::real) \<le> 0 \<and> calculate_debt_ratio_score 0 50000 3000 = Inr (0, 0)"
  using debt_ratio_zero_income [of 0 50000 3000] by simp

text \<open>
  C4. On the empty list of documents, whatever the requested credit and the monthly
  payment, \<open>evaluate_creditworthiness\<close> raises nothing and returns an assessment whose
  overall score is 0 and whose decision is the rejection (spelt \<open>Rejected\<close> in the code).
\<close>

theorem evaluate_empty_documents:
  "\<exists>r. evaluate_creditworthiness [] requested_credit monthly_payment = Inr r
       \<and> overall_score r = 0 \<and> decision r = ''Rejected''"
  by (simp add: evaluate_creditworthiness_def calculate_income_score_def
      calculate_consistency_score_def calculate_debt_ratio_score_def document_quality_def
      bind_error_def net_salaries_def List.map_filter_simps weighted_overall_score_def
      determine_rating_def round_ndigits_zero Let_def)

section \<open>Scores are within range\<close>









lemma bind_error_InrE:
  assumes "bind_error m f = Inr y"
  obtains x where "m = Inr x" and "f x = Inr y"
  using assms by (cases m) (simp_all add: bind_error_def)





section \<open>Rule-based status\<close>

lemma predict_with_unloaded:
  "\<not> model_loaded svc \<Longrightarrow> predict_with svc defaults dt fallback d = fallback d"
  by (simp add: predict_with_def)

lemma fallback_result_status:
  "(pred_status (fallback_result s) = ''VALID'' \<longleftrightarrow> pred_score (fallback_result s) \<ge> 70)
   \<and> (pred_status (fallback_result s) = ''SUSPICIOUS''
        \<longleftrightarrow> 50 \<le> pred_score (fallback_result s) \<and> pred_score (fallback_result s) < 70)
   \<and> (pred_status (fallback_result s) = ''INVALID'' \<longleftrightarrow> pred_score (fallback_result s) < 50)
   \<and> pred_status (fallback_result s) \<noteq> ''INCOMPLETE''"
  by (simp add: fallback_result_def status_of_score_def Let_def min_def max_def)

lemma fallback_is_fallback_result:
  "\<exists>s. fallback_cin_analysis d = fallback_result s"
  "\<exists>s. fallback_payslip_analysis d = fallback_result s"
  "\<exists>s. fallback_tax_analysis d = fallback_result s"
  "\<exists>s. fallback_bank_analysis d = fallback_result s"
  unfolding fallback_cin_analysis_def fallback_payslip_analysis_def fallback_tax_analysis_def
    fallback_bank_analysis_def Let_def
  by blast+

text \<open>
  C10. When no model is loaded, each of the four predictions of \<open>MLModelService\<close> is the
  fallback analysis, and its status is decided by its score alone: VALID exactly when the
  score is at least 70, SUSPICIOUS exactly when it is at least 50 and below 70, INVALID
  exactly when it is below 50; it is never INCOMPLETE.
\<close>

theorem fallback_status_from_score:
  assumes "\<not> model_loaded svc"
    and "r \<in> {predict_cin_document svc d, predict_payslip_document svc d,
              predict_tax_document svc d, predict_bank_statement_document svc d}"
  shows "(pred_status r = ''VALID'' \<longleftrightarrow> pred_score r \<ge> 70)
   \<and> (pred_status r = ''SUSPICIOUS'' \<longleftrightarrow> 50 \<le> pred_score r \<and> pred_score r < 70)
   \<and> (pred_status r = ''INVALID'' \<longleftrightarrow> pred_score r < 50)
   \<and> pred_status r \<noteq> ''INCOMPLETE''"
proof -
  have "r \<in> {fallback_cin_analysis d, fallback_payslip_analysis d, fallback_tax_analysis d,
              fallback_bank_analysis d}"
    using assms
    by (simp add: predict_cin_document_def predict_payslip_document_def predict_tax_document_def
        predict_bank_statement_document_def predict_with_unloaded)
  then obtain s where "r = fallback_result s"
    using fallback_is_fallback_result [of d] by auto
  then show ?thesis using fallback_result_status [of s] by simp
qed

theorem fallback_status_from_score_witness:
  "\<not> model_loaded example_unloaded_service
   \<and> pred_status (predict_payslip_document example_unloaded_service example_high_salary_features) = ''VALID''
   \<and> pred_score (predict_payslip_document example_unloaded_service example_high_salary_features) \<ge> 70
   \<and> pred_status (predict_payslip_document example_unloaded_service example_high_salary_features) \<noteq> ''INCOMPLETE''"
proof -
  have u: "\<not> model_loaded example_unloaded_service" by (simp add: example_unloaded_service_def)
  have v: "pred_status (predict_payslip_document example_unloaded_service example_high_salary_features) = ''VALID''"
    by (simp add: predict_payslip_document_def predict_with_unloaded u fallback_payslip_analysis_def
        fallback_result_def status_of_score_def get_default_def example_high_salary_features_def
        Let_def)
  show ?thesis
    using u v fallback_status_from_score [OF u, of
        "predict_payslip_document example_unloaded_service example_high_salary_features"
        example_high_salary_features]
    by simp
qed

text \<open>
  C3. An expired CIN is INVALID, whatever the other features are: by the labelling rule
  of the generator, by the rule-based fallback analysis, and so by the prediction of a
  service with no model loaded.
\<close>

theorem expired_cin_is_invalid:
  "generate_cin_data_status True ocr_confidence image_quality has_photo text_legible correct_format
     = ''INVALID''
   \<and> (truthy (get_default d ''is_expired'' (PBool False))
        \<longrightarrow> pred_status (fallback_cin_analysis d) = ''INVALID''
            \<and> (\<not> model_loaded svc \<longrightarrow> pred_status (predict_cin_document svc d) = ''INVALID''))"
  by (simp add: generate_cin_data_status_def fallback_cin_analysis_def fallback_result_def
      status_of_score_def predict_cin_document_def predict_with_def Let_def)

theorem expired_cin_is_invalid_witness:
  "truthy (get_default example_expired_cin ''is_expired'' (PBool False))
   \<and> \<not> model_loaded example_unloaded_service
   \<and> generate_cin_data_status True 0.92 0.88 True True True = ''INVALID''
   \<and> pred_status (fallback_cin_analysis example_expired_cin) = ''INVALID''
   \<and> pred_status (predict_cin_document example_unloaded_service example_expired_cin) = ''INVALID''"
proof -
  have t: "truthy (get_default example_expired_cin ''is_expired'' (PBool False))"
    by (simp add: example_expired_cin_def get_default_def)
  have u: "\<not> model_loaded example_unloaded_service" by (simp add: example_unloaded_service_def)
  show ?thesis
    using t u expired_cin_is_invalid [of "0.92" "0.88" True True True example_expired_cin
        example_unloaded_service]
    by blast
qed




text \<open>
  C7, as stated, fails: the labelling rule scores the CIN of the scenario 93.2, more
  than 6 points away from 86.8.
\<close>

theorem cin_example_score_not_86_8:
  "generate_cin_data_score False 0.92 0.88 True True = 93.2
   \<and> \<bar>generate_cin_data_score False 0.92 0.88 True True - 86.8\<bar> > 6"
  by (simp add: generate_cin_data_score_def round_ndigits_def py_round_def Let_def)

text \<open>
  C7, amended. For the CIN features of the scenario (not expired, OCR confidence 0.92,
  image quality 0.88, photo, legible, correct format) the labelling rule gives the score
  0.4 * 92 + 0.3 * 88 + 0.2 * 100 + 0.05 * 100 + 0.05 * 100 = 93.2 and the status VALID.
\<close>

theorem cin_example_label:
  "generate_cin_data_score False 0.92 0.88 True True = 0.4 * 92 + 0.3 * 88 + 0.2 * 100 + 0.05 * 100 + 0.05 * 100
   \<and> generate_cin_data_score False 0.92 0.88 True True = 93.2
   \<and> generate_cin_data_status False 0.92 0.88 True True True = ''VALID''"
  by (simp add: generate_cin_data_score_def generate_cin_data_status_def round_ndigits_def
      py_round_def Let_def)

theorem cin_example_label_witness:
  "generate_cin_data_status False 0.92 0.88 True True True = ''VALID''
   \<and> generate_cin_data_score False 0.92 0.88 True True = 93.2"
  using cin_example_label by blast

section \<open>The weighted overall score\<close>















section \<open>The decision of the document analyzer\<close>









section \<open>Results of the document parser\<close>

lemma issue_snd: "snd (issue msg penalty st) = snd st - penalty"
  by (simp add: issue_def)

lemma validate_pay_slip_bounds:
  assumes "validate_pay_slip ps ([], 50) = Inr st"
  shows "0 \<le> snd st"
  using assms
  by (auto simp add: validate_pay_slip_def Let_def issue_snd bind_error_def py_div_def
      split: if_splits)

lemma validate_tax_declaration_bounds: "0 \<le> snd (validate_tax_declaration td ([], 50))"
  by (simp add: validate_tax_declaration_def Let_def issue_snd)

lemma validate_bank_statement_bounds: "0 \<le> snd (validate_bank_statement bs ([], 50))"
  by (simp add: validate_bank_statement_def Let_def issue_snd)

lemma finish_analysis_range:
  assumes "0 \<le> snd st"
  shows "0 \<le> confidence (finish_analysis dt data st) \<and> confidence (finish_analysis dt data st) \<le> 1
       \<and> 0 \<le> score (finish_analysis dt data st) \<and> score (finish_analysis dt data st) \<le> 100"
  using assms by (simp add: finish_analysis_def Let_def split_beta)

text \<open>
  C9. Every result \<open>analyze_document\<close> returns, for any text extractor and any parsers
  (so for any text and any parsed fields, also when every validation check fails), has a
  confidence within [0, 1] and a score within [0, 100].
\<close>

theorem analysis_result_within_range:
  assumes "analyze_document parser pdf_bytes dt = Inr r"
  shows "0 \<le> confidence r \<and> confidence r \<le> 1 \<and> 0 \<le> score r \<and> score r \<le> 100"
proof -
  define text_v where "text_v = extract_text_from_pdf parser pdf_bytes"
  note unf = analyze_document_def Let_def text_v_def [symmetric]
  consider (short) "text_v = [] \<or> length text_v < 50"
    | (pay) "\<not> (text_v = [] \<or> length text_v < 50)" "dt = PAY_SLIP"
    | (tax) "\<not> (text_v = [] \<or> length text_v < 50)" "dt = TAX_DECLARATION"
    | (bank) "\<not> (text_v = [] \<or> length text_v < 50)" "dt = BANK_STATEMENT"
    | (other) "\<not> (text_v = [] \<or> length text_v < 50)" "dt \<noteq> PAY_SLIP" "dt \<noteq> TAX_DECLARATION"
        "dt \<noteq> BANK_STATEMENT"
    by blast
  then show ?thesis
  proof cases
    case short
    then have "r = \<lparr>document_type = dt, status = INVALID, confidence = 0, extracted_data = NoData,
                validation_issues = [''Failed to extract text from document''], score = 0,
                risk_flags = [''Unreadable document''],
                recommendations = [''Upload a clearer, high-quality document'']\<rparr>"
      using assms unfolding unf by simp
    then show ?thesis by simp
  next
    case pay
    then have "bind_error (parse_pay_slip parser text_v) (\<lambda>pay_slip.
           bind_error (validate_pay_slip pay_slip ([], 50)) (\<lambda>st.
           Inr (finish_analysis dt (PaySlipDict pay_slip) st))) = Inr r"
      using assms unfolding unf by simp
    then obtain pay_slip st where "validate_pay_slip pay_slip ([], 50) = Inr st"
      and "r = finish_analysis dt (PaySlipDict pay_slip) st"
      by (elim bind_error_InrE) auto
    then show ?thesis using finish_analysis_range validate_pay_slip_bounds by blast
  next
    case tax
    then have "bind_error (parse_tax_declaration parser text_v) (\<lambda>tax_decl.
           Inr (finish_analysis dt (TaxDict tax_decl) (validate_tax_declaration tax_decl ([], 50)))) = Inr r"
      using assms unfolding unf by simp
    then obtain tax_decl where
      "r = finish_analysis dt (TaxDict tax_decl) (validate_tax_declaration tax_decl ([], 50))"
      by (elim bind_error_InrE) auto
    then show ?thesis using finish_analysis_range validate_tax_declaration_bounds by blast
  next
    case bank
    then have "bind_error (parse_bank_statement parser text_v) (\<lambda>bank_stmt.
           Inr (finish_analysis dt (BankDict bank_stmt) (validate_bank_statement bank_stmt ([], 50)))) = Inr r"
      using assms unfolding unf by simp
    then obtain bank_stmt where
      "r = finish_analysis dt (BankDict bank_stmt) (validate_bank_statement bank_stmt ([], 50))"
      by (elim bind_error_InrE) auto
    then show ?thesis using finish_analysis_range validate_bank_statement_bounds by blast
  next
    case other
    then have "r = finish_analysis dt NoData ([], 50)"
      using assms unfolding unf by simp
    then show ?thesis using finish_analysis_range [of "([], 50)" dt NoData] by simp
  qed
qed

lemma example_validate:
  "validate_pay_slip \<lparr>gross_salary = Some 1000, net_salary = Some 2000,
                                   employer_name = None, employee_name = None, month = None,
                                   year = None, cnss_deduction = None, ir_deduction = None,
                                   total_deductions = None\<rparr> ([], 50)
    = Inr ([''Employer name not found'',
                           ''Net salary greater than gross salary - suspicious'',
                           ''Unusually low deductions''], 5)"
  by (simp add: validate_pay_slip_def truthy_num_def truthy_str_def issue_def bind_error_def
      py_div_def Let_def)

lemma example_analyze:
  "analyze_document example_parser ''%PDF'' PAY_SLIP = Inr example_analysis"
  unfolding analyze_document_def Let_def
  by (simp add: example_parser_def example_validate bind_error_def finish_analysis_def
      example_analysis_def Let_def)

theorem analysis_result_within_range_witness:
  "analyze_document example_parser ''%PDF'' PAY_SLIP = Inr example_analysis
   \<and> 0 \<le> confidence example_analysis \<and> confidence example_analysis \<le> 1
   \<and> 0 \<le> score example_analysis \<and> score example_analysis \<le> 100"
  using example_analyze analysis_result_within_range [OF example_analyze] by simp

section \<open>Every score is within range\<close>














end
